theory Spec2Isabelle
  imports Main "HOL-Library.Word" "HOL-Library.Signed_Division"
begin

unbundle bit_operations_syntax

chapter \<open>Pangfish: Twofish and Multi-Power RSA\<close>

section \<open>Twofish (twofish.c)\<close>

subsection \<open>Types, macros and tables\<close>

text \<open>
  \<^verbatim>\<open>u32\<close> is \<^verbatim>\<open>unsigned int\<close> and \<^verbatim>\<open>BYTE\<close> is \<^verbatim>\<open>unsigned char\<close> (twofish.h).
  \<^verbatim>\<open>BIG_ENDIAN\<close> is 0 unless the build sets it, so \<^verbatim>\<open>BSWAP\<close> is the identity and a
  \<^verbatim>\<open>u32\<close> read through \<^verbatim>\<open>(u32*)PT\<close> is a little-endian load.
\<close>

type_synonym u32 = "32 word"
type_synonym byte = "8 word"

definition ROL :: "u32 \<Rightarrow> nat \<Rightarrow> u32" where
  "ROL x n = push_bit (n mod 32) x OR drop_bit (32 - n mod 32) x"

definition ROR :: "u32 \<Rightarrow> nat \<Rightarrow> u32" where
  "ROR x n = drop_bit (n mod 32) x OR push_bit (32 - n mod 32) x"

definition BSWAP :: "u32 \<Rightarrow> u32" where
  "BSWAP x = x"

text \<open>\<^verbatim>\<open>_b(x, N)\<close> stays a \<^verbatim>\<open>u32\<close>; \<^verbatim>\<open>b0\<close> .. \<^verbatim>\<open>b3\<close> cast to \<^verbatim>\<open>BYTE\<close>.\<close>

definition b_N :: "u32 \<Rightarrow> nat \<Rightarrow> u32" where
  "b_N x N = drop_bit (N * 8) x AND 0xFF"

definition b0 :: "u32 \<Rightarrow> byte" where "b0 x = ucast x"
definition b1 :: "u32 \<Rightarrow> byte" where "b1 x = ucast (drop_bit 8 x)"
definition b2 :: "u32 \<Rightarrow> byte" where "b2 x = ucast (drop_bit 16 x)"
definition b3 :: "u32 \<Rightarrow> byte" where "b3 x = ucast (drop_bit 24 x)"

definition BYTES_TO_U32 :: "byte \<Rightarrow> byte \<Rightarrow> byte \<Rightarrow> byte \<Rightarrow> u32" where
  "BYTES_TO_U32 r0 r1 r2 r3 =
     push_bit 24 (ucast r0) XOR push_bit 16 (ucast r1) XOR push_bit 8 (ucast r2) XOR ucast r3"

definition BYTEARRAY_TO_U32 :: "byte list \<Rightarrow> u32" where
  "BYTEARRAY_TO_U32 r =
     push_bit 24 (ucast (r ! 0)) XOR push_bit 16 (ucast (r ! 1)) XOR push_bit 8 (ucast (r ! 2))
       XOR ucast (r ! 3)"

definition RS_MOD :: u32 where "RS_MOD = 0x14D"
definition RHO :: u32 where "RHO = 0x01010101"

text \<open>
  Modelled from the spec: \<^verbatim>\<open>tables.h\<close> is not among the sources. It declares the fixed
  tables \<^verbatim>\<open>Q0[256]\<close>, \<^verbatim>\<open>Q1[256]\<close>, \<^verbatim>\<open>RS[4][8]\<close>, \<^verbatim>\<open>mult5B[256]\<close> and \<^verbatim>\<open>multEF[256]\<close>,
  which "must match the Twofish specification bitwise": the two 8-bit permutations of the
  cipher, its Reed-Solomon matrix, and multiplication by 5B and by EF in GF(256) modulo
  \<open>x^8 + x^6 + x^5 + x^3 + 1\<close>.
\<close>

definition Q0 :: "byte list" where
  "Q0 = [
    0xA9, 0x67, 0xB3, 0xE8, 0x04, 0xFD, 0xA3, 0x76, 0x9A, 0x92, 0x80, 0x78, 0xE4, 0xDD, 0xD1, 0x38,
    0x0D, 0xC6, 0x35, 0x98, 0x18, 0xF7, 0xEC, 0x6C, 0x43, 0x75, 0x37, 0x26, 0xFA, 0x13, 0x94, 0x48,
    0xF2, 0xD0, 0x8B, 0x30, 0x84, 0x54, 0xDF, 0x23, 0x19, 0x5B, 0x3D, 0x59, 0xF3, 0xAE, 0xA2, 0x82,
    0x63, 0x01, 0x83, 0x2E, 0xD9, 0x51, 0x9B, 0x7C, 0xA6, 0xEB, 0xA5, 0xBE, 0x16, 0x0C, 0xE3, 0x61,
    0xC0, 0x8C, 0x3A, 0xF5, 0x73, 0x2C, 0x25, 0x0B, 0xBB, 0x4E, 0x89, 0x6B, 0x53, 0x6A, 0xB4, 0xF1,
    0xE1, 0xE6, 0xBD, 0x45, 0xE2, 0xF4, 0xB6, 0x66, 0xCC, 0x95, 0x03, 0x56, 0xD4, 0x1C, 0x1E, 0xD7,
    0xFB, 0xC3, 0x8E, 0xB5, 0xE9, 0xCF, 0xBF, 0xBA, 0xEA, 0x77, 0x39, 0xAF, 0x33, 0xC9, 0x62, 0x71,
    0x81, 0x79, 0x09, 0xAD, 0x24, 0xCD, 0xF9, 0xD8, 0xE5, 0xC5, 0xB9, 0x4D, 0x44, 0x08, 0x86, 0xE7,
    0xA1, 0x1D, 0xAA, 0xED, 0x06, 0x70, 0xB2, 0xD2, 0x41, 0x7B, 0xA0, 0x11, 0x31, 0xC2, 0x27, 0x90,
    0x20, 0xF6, 0x60, 0xFF, 0x96, 0x5C, 0xB1, 0xAB, 0x9E, 0x9C, 0x52, 0x1B, 0x5F, 0x93, 0x0A, 0xEF,
    0x91, 0x85, 0x49, 0xEE, 0x2D, 0x4F, 0x8F, 0x3B, 0x47, 0x87, 0x6D, 0x46, 0xD6, 0x3E, 0x69, 0x64,
    0x2A, 0xCE, 0xCB, 0x2F, 0xFC, 0x97, 0x05, 0x7A, 0xAC, 0x7F, 0xD5, 0x1A, 0x4B, 0x0E, 0xA7, 0x5A,
    0x28, 0x14, 0x3F, 0x29, 0x88, 0x3C, 0x4C, 0x02, 0xB8, 0xDA, 0xB0, 0x17, 0x55, 0x1F, 0x8A, 0x7D,
    0x57, 0xC7, 0x8D, 0x74, 0xB7, 0xC4, 0x9F, 0x72, 0x7E, 0x15, 0x22, 0x12, 0x58, 0x07, 0x99, 0x34,
    0x6E, 0x50, 0xDE, 0x68, 0x65, 0xBC, 0xDB, 0xF8, 0xC8, 0xA8, 0x2B, 0x40, 0xDC, 0xFE, 0x32, 0xA4,
    0xCA, 0x10, 0x21, 0xF0, 0xD3, 0x5D, 0x0F, 0x00, 0x6F, 0x9D, 0x36, 0x42, 0x4A, 0x5E, 0xC1, 0xE0]"

definition Q1 :: "byte list" where
  "Q1 = [
    0x75, 0xF3, 0xC6, 0xF4, 0xDB, 0x7B, 0xFB, 0xC8, 0x4A, 0xD3, 0xE6, 0x6B, 0x45, 0x7D, 0xE8, 0x4B,
    0xD6, 0x32, 0xD8, 0xFD, 0x37, 0x71, 0xF1, 0xE1, 0x30, 0x0F, 0xF8, 0x1B, 0x87, 0xFA, 0x06, 0x3F,
    0x5E, 0xBA, 0xAE, 0x5B, 0x8A, 0x00, 0xBC, 0x9D, 0x6D, 0xC1, 0xB1, 0x0E, 0x80, 0x5D, 0xD2, 0xD5,
    0xA0, 0x84, 0x07, 0x14, 0xB5, 0x90, 0x2C, 0xA3, 0xB2, 0x73, 0x4C, 0x54, 0x92, 0x74, 0x36, 0x51,
    0x38, 0xB0, 0xBD, 0x5A, 0xFC, 0x60, 0x62, 0x96, 0x6C, 0x42, 0xF7, 0x10, 0x7C, 0x28, 0x27, 0x8C,
    0x13, 0x95, 0x9C, 0xC7, 0x24, 0x46, 0x3B, 0x70, 0xCA, 0xE3, 0x85, 0xCB, 0x11, 0xD0, 0x93, 0xB8,
    0xA6, 0x83, 0x20, 0xFF, 0x9F, 0x77, 0xC3, 0xCC, 0x03, 0x6F, 0x08, 0xBF, 0x40, 0xE7, 0x2B, 0xE2,
    0x79, 0x0C, 0xAA, 0x82, 0x41, 0x3A, 0xEA, 0xB9, 0xE4, 0x9A, 0xA4, 0x97, 0x7E, 0xDA, 0x7A, 0x17,
    0x66, 0x94, 0xA1, 0x1D, 0x3D, 0xF0, 0xDE, 0xB3, 0x0B, 0x72, 0xA7, 0x1C, 0xEF, 0xD1, 0x53, 0x3E,
    0x8F, 0x33, 0x26, 0x5F, 0xEC, 0x76, 0x2A, 0x49, 0x81, 0x88, 0xEE, 0x21, 0xC4, 0x1A, 0xEB, 0xD9,
    0xC5, 0x39, 0x99, 0xCD, 0xAD, 0x31, 0x8B, 0x01, 0x18, 0x23, 0xDD, 0x1F, 0x4E, 0x2D, 0xF9, 0x48,
    0x4F, 0xF2, 0x65, 0x8E, 0x78, 0x5C, 0x58, 0x19, 0x8D, 0xE5, 0x98, 0x57, 0x67, 0x7F, 0x05, 0x64,
    0xAF, 0x63, 0xB6, 0xFE, 0xF5, 0xB7, 0x3C, 0xA5, 0xCE, 0xE9, 0x68, 0x44, 0xE0, 0x4D, 0x43, 0x69,
    0x29, 0x2E, 0xAC, 0x15, 0x59, 0xA8, 0x0A, 0x9E, 0x6E, 0x47, 0xDF, 0x34, 0x35, 0x6A, 0xCF, 0xDC,
    0x22, 0xC9, 0xC0, 0x9B, 0x89, 0xD4, 0xED, 0xAB, 0x12, 0xA2, 0x0D, 0x52, 0xBB, 0x02, 0x2F, 0xA9,
    0xD7, 0x61, 0x1E, 0xB4, 0x50, 0x04, 0xF6, 0xC2, 0x16, 0x25, 0x86, 0x56, 0x55, 0x09, 0xBE, 0x91]"

definition mult5B :: "byte list" where
  "mult5B = [
    0x00, 0x5B, 0xB6, 0xED, 0x05, 0x5E, 0xB3, 0xE8, 0x0A, 0x51, 0xBC, 0xE7, 0x0F, 0x54, 0xB9, 0xE2,
    0x14, 0x4F, 0xA2, 0xF9, 0x11, 0x4A, 0xA7, 0xFC, 0x1E, 0x45, 0xA8, 0xF3, 0x1B, 0x40, 0xAD, 0xF6,
    0x28, 0x73, 0x9E, 0xC5, 0x2D, 0x76, 0x9B, 0xC0, 0x22, 0x79, 0x94, 0xCF, 0x27, 0x7C, 0x91, 0xCA,
    0x3C, 0x67, 0x8A, 0xD1, 0x39, 0x62, 0x8F, 0xD4, 0x36, 0x6D, 0x80, 0xDB, 0x33, 0x68, 0x85, 0xDE,
    0x50, 0x0B, 0xE6, 0xBD, 0x55, 0x0E, 0xE3, 0xB8, 0x5A, 0x01, 0xEC, 0xB7, 0x5F, 0x04, 0xE9, 0xB2,
    0x44, 0x1F, 0xF2, 0xA9, 0x41, 0x1A, 0xF7, 0xAC, 0x4E, 0x15, 0xF8, 0xA3, 0x4B, 0x10, 0xFD, 0xA6,
    0x78, 0x23, 0xCE, 0x95, 0x7D, 0x26, 0xCB, 0x90, 0x72, 0x29, 0xC4, 0x9F, 0x77, 0x2C, 0xC1, 0x9A,
    0x6C, 0x37, 0xDA, 0x81, 0x69, 0x32, 0xDF, 0x84, 0x66, 0x3D, 0xD0, 0x8B, 0x63, 0x38, 0xD5, 0x8E,
    0xA0, 0xFB, 0x16, 0x4D, 0xA5, 0xFE, 0x13, 0x48, 0xAA, 0xF1, 0x1C, 0x47, 0xAF, 0xF4, 0x19, 0x42,
    0xB4, 0xEF, 0x02, 0x59, 0xB1, 0xEA, 0x07, 0x5C, 0xBE, 0xE5, 0x08, 0x53, 0xBB, 0xE0, 0x0D, 0x56,
    0x88, 0xD3, 0x3E, 0x65, 0x8D, 0xD6, 0x3B, 0x60, 0x82, 0xD9, 0x34, 0x6F, 0x87, 0xDC, 0x31, 0x6A,
    0x9C, 0xC7, 0x2A, 0x71, 0x99, 0xC2, 0x2F, 0x74, 0x96, 0xCD, 0x20, 0x7B, 0x93, 0xC8, 0x25, 0x7E,
    0xF0, 0xAB, 0x46, 0x1D, 0xF5, 0xAE, 0x43, 0x18, 0xFA, 0xA1, 0x4C, 0x17, 0xFF, 0xA4, 0x49, 0x12,
    0xE4, 0xBF, 0x52, 0x09, 0xE1, 0xBA, 0x57, 0x0C, 0xEE, 0xB5, 0x58, 0x03, 0xEB, 0xB0, 0x5D, 0x06,
    0xD8, 0x83, 0x6E, 0x35, 0xDD, 0x86, 0x6B, 0x30, 0xD2, 0x89, 0x64, 0x3F, 0xD7, 0x8C, 0x61, 0x3A,
    0xCC, 0x97, 0x7A, 0x21, 0xC9, 0x92, 0x7F, 0x24, 0xC6, 0x9D, 0x70, 0x2B, 0xC3, 0x98, 0x75, 0x2E]"

definition multEF :: "byte list" where
  "multEF = [
    0x00, 0xEF, 0xB7, 0x58, 0x07, 0xE8, 0xB0, 0x5F, 0x0E, 0xE1, 0xB9, 0x56, 0x09, 0xE6, 0xBE, 0x51,
    0x1C, 0xF3, 0xAB, 0x44, 0x1B, 0xF4, 0xAC, 0x43, 0x12, 0xFD, 0xA5, 0x4A, 0x15, 0xFA, 0xA2, 0x4D,
    0x38, 0xD7, 0x8F, 0x60, 0x3F, 0xD0, 0x88, 0x67, 0x36, 0xD9, 0x81, 0x6E, 0x31, 0xDE, 0x86, 0x69,
    0x24, 0xCB, 0x93, 0x7C, 0x23, 0xCC, 0x94, 0x7B, 0x2A, 0xC5, 0x9D, 0x72, 0x2D, 0xC2, 0x9A, 0x75,
    0x70, 0x9F, 0xC7, 0x28, 0x77, 0x98, 0xC0, 0x2F, 0x7E, 0x91, 0xC9, 0x26, 0x79, 0x96, 0xCE, 0x21,
    0x6C, 0x83, 0xDB, 0x34, 0x6B, 0x84, 0xDC, 0x33, 0x62, 0x8D, 0xD5, 0x3A, 0x65, 0x8A, 0xD2, 0x3D,
    0x48, 0xA7, 0xFF, 0x10, 0x4F, 0xA0, 0xF8, 0x17, 0x46, 0xA9, 0xF1, 0x1E, 0x41, 0xAE, 0xF6, 0x19,
    0x54, 0xBB, 0xE3, 0x0C, 0x53, 0xBC, 0xE4, 0x0B, 0x5A, 0xB5, 0xED, 0x02, 0x5D, 0xB2, 0xEA, 0x05,
    0xE0, 0x0F, 0x57, 0xB8, 0xE7, 0x08, 0x50, 0xBF, 0xEE, 0x01, 0x59, 0xB6, 0xE9, 0x06, 0x5E, 0xB1,
    0xFC, 0x13, 0x4B, 0xA4, 0xFB, 0x14, 0x4C, 0xA3, 0xF2, 0x1D, 0x45, 0xAA, 0xF5, 0x1A, 0x42, 0xAD,
    0xD8, 0x37, 0x6F, 0x80, 0xDF, 0x30, 0x68, 0x87, 0xD6, 0x39, 0x61, 0x8E, 0xD1, 0x3E, 0x66, 0x89,
    0xC4, 0x2B, 0x73, 0x9C, 0xC3, 0x2C, 0x74, 0x9B, 0xCA, 0x25, 0x7D, 0x92, 0xCD, 0x22, 0x7A, 0x95,
    0x90, 0x7F, 0x27, 0xC8, 0x97, 0x78, 0x20, 0xCF, 0x9E, 0x71, 0x29, 0xC6, 0x99, 0x76, 0x2E, 0xC1,
    0x8C, 0x63, 0x3B, 0xD4, 0x8B, 0x64, 0x3C, 0xD3, 0x82, 0x6D, 0x35, 0xDA, 0x85, 0x6A, 0x32, 0xDD,
    0xA8, 0x47, 0x1F, 0xF0, 0xAF, 0x40, 0x18, 0xF7, 0xA6, 0x49, 0x11, 0xFE, 0xA1, 0x4E, 0x16, 0xF9,
    0xB4, 0x5B, 0x03, 0xEC, 0xB3, 0x5C, 0x04, 0xEB, 0xBA, 0x55, 0x0D, 0xE2, 0xBD, 0x52, 0x0A, 0xE5]"

definition RS :: "byte list list" where
  "RS = [
    [0x01, 0xA4, 0x55, 0x87, 0x5A, 0x58, 0xDB, 0x9E],
    [0xA4, 0x56, 0x82, 0xF3, 0x1E, 0xC6, 0x68, 0xE5],
    [0x02, 0xA1, 0xFC, 0xC1, 0x47, 0xAE, 0x3D, 0x19],
    [0xA4, 0x55, 0x87, 0x5A, 0x58, 0xDB, 0x9E, 0x03]]"

subsection \<open>GF(256) arithmetic and the Reed-Solomon multiply\<close>

text \<open>\<^verbatim>\<open>polyMult\<close>: the loop \<^verbatim>\<open>while (a) { if (a&1) t^=b; b <<= 1; a >>= 1; }\<close>.\<close>

function polyMult_loop :: "u32 \<Rightarrow> u32 \<Rightarrow> u32 \<Rightarrow> u32" where
  "polyMult_loop a b t =
     (if a = 0 then t
      else polyMult_loop (drop_bit 1 a) (push_bit 1 b) (if a AND 1 \<noteq> 0 then t XOR b else t))"
  by pat_completeness auto
termination
proof (relation "measure (\<lambda>(a, b, t). unat a)")
  show "wf (measure (\<lambda>(a, b, t). unat a))" by simp
next
  fix a b t :: u32
  assume "a \<noteq> 0"
  then have "0 < unat a" by (simp add: unat_gt_0)
  then have "unat a div 2 < unat a" by simp
  then show "((drop_bit 1 a, push_bit 1 b, if a AND 1 \<noteq> 0 then t XOR b else t), (a, b, t))
      \<in> measure (\<lambda>(a, b, t). unat a)"
    by (simp add: drop_bit_eq_div unat_div)
qed

definition polyMult :: "u32 \<Rightarrow> u32 \<Rightarrow> u32" where
  "polyMult a b = polyMult_loop a b 0"

text \<open>\<^verbatim>\<open>gfMod\<close>: eight passes of \<^verbatim>\<open>tt = t ^ modulus; if (tt < t) t = tt; modulus >>= 1\<close>.\<close>

fun gfMod_loop :: "nat \<Rightarrow> u32 \<Rightarrow> u32 \<Rightarrow> u32" where
  "gfMod_loop 0 t modulus = t"
| "gfMod_loop (Suc i) t modulus =
     (let tt = t XOR modulus in gfMod_loop i (if tt < t then tt else t) (drop_bit 1 modulus))"

definition gfMod :: "u32 \<Rightarrow> u32 \<Rightarrow> u32" where
  "gfMod t modulus = gfMod_loop 8 t (push_bit 7 modulus)"

definition gfMult :: "u32 \<Rightarrow> u32 \<Rightarrow> u32 \<Rightarrow> u32" where
  "gfMult a b modulus = gfMod (polyMult a b) modulus"

text \<open>
  \<^verbatim>\<open>RSMatrixMultiply\<close>: row \<open>j\<close> of \<^verbatim>\<open>RS\<close> times the vector, accumulated in the \<^verbatim>\<open>BYTE t\<close>
  and stored in \<^verbatim>\<open>result[3-j]\<close>.
\<close>

definition RS_row :: "byte list \<Rightarrow> nat \<Rightarrow> byte" where
  "RS_row sd j =
     fold (\<lambda>k t. t XOR ucast (gfMult (ucast (RS ! j ! k)) (ucast (sd ! k)) RS_MOD)) [0..<8] 0"

definition RSMatrixMultiply :: "byte list \<Rightarrow> u32" where
  "RSMatrixMultiply sd =
     BYTEARRAY_TO_U32 (fold (\<lambda>j result. result[3 - j := RS_row sd j]) [0..<4] [0, 0, 0, 0])"

subsection \<open>The h function and the keyed tables\<close>

text \<open>
  \<^verbatim>\<open>h\<close>: the \<^verbatim>\<open>switch (k)\<close> has no \<^verbatim>\<open>break\<close>, so case 4 falls through to 3 and 2;
  any other \<open>k\<close> runs no case.
\<close>

definition h :: "u32 \<Rightarrow> u32 list \<Rightarrow> int \<Rightarrow> u32" where
  "h X L k =
    (let y0 = b0 X; y1 = b1 X; y2 = b2 X; y3 = b3 X;
         (y0, y1, y2, y3) =
           (if k = 4 then
              (Q1 ! unat y0 XOR b0 (L ! 3), Q0 ! unat y1 XOR b1 (L ! 3),
               Q0 ! unat y2 XOR b2 (L ! 3), Q1 ! unat y3 XOR b3 (L ! 3))
            else (y0, y1, y2, y3));
         (y0, y1, y2, y3) =
           (if k = 4 \<or> k = 3 then
              (Q1 ! unat y0 XOR b0 (L ! 2), Q1 ! unat y1 XOR b1 (L ! 2),
               Q0 ! unat y2 XOR b2 (L ! 2), Q0 ! unat y3 XOR b3 (L ! 2))
            else (y0, y1, y2, y3));
         (y0, y1, y2, y3) =
           (if k = 4 \<or> k = 3 \<or> k = 2 then
              (Q1 ! unat (Q0 ! unat (Q0 ! unat y0 XOR b0 (L ! 1)) XOR b0 (L ! 0)),
               Q0 ! unat (Q0 ! unat (Q1 ! unat y1 XOR b1 (L ! 1)) XOR b1 (L ! 0)),
               Q1 ! unat (Q1 ! unat (Q0 ! unat y2 XOR b2 (L ! 1)) XOR b2 (L ! 0)),
               Q0 ! unat (Q1 ! unat (Q1 ! unat y3 XOR b3 (L ! 1)) XOR b3 (L ! 0)))
            else (y0, y1, y2, y3));
         z0 = multEF ! unat y0 XOR y1 XOR multEF ! unat y2 XOR mult5B ! unat y3;
         z1 = multEF ! unat y0 XOR mult5B ! unat y1 XOR y2 XOR multEF ! unat y3;
         z2 = mult5B ! unat y0 XOR multEF ! unat y1 XOR multEF ! unat y2 XOR y3;
         z3 = y0 XOR multEF ! unat y1 XOR mult5B ! unat y2 XOR mult5B ! unat y3
     in BYTES_TO_U32 z0 z1 z2 z3)"

text \<open>
  \<^verbatim>\<open>fullKey\<close>: for every \<open>i < 256\<close> the body runs the same \<^verbatim>\<open>switch\<close> on
  \<open>y0 = y1 = y2 = y3 = i\<close> and stores one entry in each of the four tables. Every entry of
  \<^verbatim>\<open>QF[4][256]\<close> is assigned, so the model builds the four rows.
\<close>

definition fullKey_entry :: "u32 list \<Rightarrow> int \<Rightarrow> nat \<Rightarrow> u32 \<times> u32 \<times> u32 \<times> u32" where
  "fullKey_entry L k i =
    (let y0 = of_nat i; y1 = of_nat i; y2 = of_nat i; y3 = (of_nat i :: byte);
         (y0, y1, y2, y3) =
           (if k = 4 then
              (Q1 ! unat y0 XOR b0 (L ! 3), Q0 ! unat y1 XOR b1 (L ! 3),
               Q0 ! unat y2 XOR b2 (L ! 3), Q1 ! unat y3 XOR b3 (L ! 3))
            else (y0, y1, y2, y3));
         (y0, y1, y2, y3) =
           (if k = 4 \<or> k = 3 then
              (Q1 ! unat y0 XOR b0 (L ! 2), Q1 ! unat y1 XOR b1 (L ! 2),
               Q0 ! unat y2 XOR b2 (L ! 2), Q0 ! unat y3 XOR b3 (L ! 2))
            else (y0, y1, y2, y3));
         (y0, y1, y2, y3) =
           (if k = 4 \<or> k = 3 \<or> k = 2 then
              (Q1 ! unat (Q0 ! unat (Q0 ! unat y0 XOR b0 (L ! 1)) XOR b0 (L ! 0)),
               Q0 ! unat (Q0 ! unat (Q1 ! unat y1 XOR b1 (L ! 1)) XOR b1 (L ! 0)),
               Q1 ! unat (Q1 ! unat (Q0 ! unat y2 XOR b2 (L ! 1)) XOR b2 (L ! 0)),
               Q0 ! unat (Q1 ! unat (Q1 ! unat y3 XOR b3 (L ! 1)) XOR b3 (L ! 0)))
            else (y0, y1, y2, y3))
     in (push_bit 24 (ucast (multEF ! unat y0)) OR push_bit 16 (ucast (multEF ! unat y0))
           OR push_bit 8 (ucast (mult5B ! unat y0)) OR ucast y0,
         push_bit 24 (ucast y1) OR push_bit 16 (ucast (mult5B ! unat y1))
           OR push_bit 8 (ucast (multEF ! unat y1)) OR ucast (multEF ! unat y1),
         push_bit 24 (ucast (multEF ! unat y2)) OR push_bit 16 (ucast y2)
           OR push_bit 8 (ucast (multEF ! unat y2)) OR ucast (mult5B ! unat y2),
         push_bit 24 (ucast (mult5B ! unat y3)) OR push_bit 16 (ucast (multEF ! unat y3))
           OR push_bit 8 (ucast y3) OR ucast (mult5B ! unat y3)))"

definition fullKey :: "u32 list \<Rightarrow> int \<Rightarrow> u32 list list" where
  "fullKey L k =
     [map (\<lambda>i. fst (fullKey_entry L k i)) [0..<256],
      map (\<lambda>i. fst (snd (fullKey_entry L k i))) [0..<256],
      map (\<lambda>i. fst (snd (snd (fullKey_entry L k i)))) [0..<256],
      map (\<lambda>i. snd (snd (snd (fullKey_entry L k i)))) [0..<256]]"

subsection \<open>The context, the rounds and the block operations\<close>

record TWOFISH_CTX =
  K :: "u32 list"
  QF :: "u32 list list"

definition twofish_init_ctx :: TWOFISH_CTX where
  "twofish_init_ctx = \<lparr>K = replicate 40 0, QF = replicate 4 (replicate 256 0)\<rparr>"

definition fkh :: "TWOFISH_CTX \<Rightarrow> u32 \<Rightarrow> u32" where
  "fkh ctx X =
     QF ctx ! 0 ! unat (b0 X) XOR QF ctx ! 1 ! unat (b1 X) XOR QF ctx ! 2 ! unat (b2 X)
       XOR QF ctx ! 3 ! unat (b3 X)"

text \<open>
  The macros \<^verbatim>\<open>ENC_ROUND(R0, R1, R2, R3, round)\<close> and \<^verbatim>\<open>DEC_ROUND\<close> read their first two
  arguments and assign the last two; the model returns the four variables in the order of
  the macro's arguments.
\<close>

definition ENC_ROUND :: "TWOFISH_CTX \<Rightarrow> u32 \<times> u32 \<times> u32 \<times> u32 \<Rightarrow> nat \<Rightarrow> u32 \<times> u32 \<times> u32 \<times> u32" where
  "ENC_ROUND ctx R round =
    (case R of (R0, R1, R2, R3) \<Rightarrow>
      let T0 = fkh ctx R0;
          T1 = fkh ctx (ROL R1 8);
          R2 = ROR (R2 XOR (T1 + T0 + K ctx ! (2 * round + 8))) 1;
          R3 = ROL R3 1 XOR (2 * T1 + T0 + K ctx ! (2 * round + 9))
      in (R0, R1, R2, R3))"

definition DEC_ROUND :: "TWOFISH_CTX \<Rightarrow> u32 \<times> u32 \<times> u32 \<times> u32 \<Rightarrow> nat \<Rightarrow> u32 \<times> u32 \<times> u32 \<times> u32" where
  "DEC_ROUND ctx R round =
    (case R of (R0, R1, R2, R3) \<Rightarrow>
      let T0 = fkh ctx R0;
          T1 = fkh ctx (ROL R1 8);
          R2 = ROL R2 1 XOR (T0 + T1 + K ctx ! (2 * round + 8));
          R3 = ROR (R3 XOR (T0 + 2 * T1 + K ctx ! (2 * round + 9))) 1
      in (R0, R1, R2, R3))"

text \<open>\<^verbatim>\<open>((u32*)PT)[i]\<close> read and written on a little-endian host.\<close>

definition load_u32 :: "byte list \<Rightarrow> nat \<Rightarrow> u32" where
  "load_u32 PT i =
     ucast (PT ! (4 * i)) OR push_bit 8 (ucast (PT ! (4 * i + 1)))
       OR push_bit 16 (ucast (PT ! (4 * i + 2))) OR push_bit 24 (ucast (PT ! (4 * i + 3)))"

definition store_u32 :: "byte list \<Rightarrow> nat \<Rightarrow> u32 \<Rightarrow> byte list" where
  "store_u32 PT i w =
     PT[4 * i := ucast w, 4 * i + 1 := ucast (drop_bit 8 w),
        4 * i + 2 := ucast (drop_bit 16 w), 4 * i + 3 := ucast (drop_bit 24 w)]"

text \<open>The sixteen \<^verbatim>\<open>ENC_ROUND\<close> lines of \<^verbatim>\<open>twofish_encrypt\<close>, on the variables \<open>R0 .. R3\<close>.\<close>

definition twofish_encrypt_rounds :: "TWOFISH_CTX \<Rightarrow> u32 \<times> u32 \<times> u32 \<times> u32 \<Rightarrow> u32 \<times> u32 \<times> u32 \<times> u32" where
  "twofish_encrypt_rounds ctx R =
    (case R of (R0, R1, R2, R3) \<Rightarrow>
      let (R0, R1, R2, R3) = ENC_ROUND ctx (R0, R1, R2, R3) 0;
          (R2, R3, R0, R1) = ENC_ROUND ctx (R2, R3, R0, R1) 1;
          (R0, R1, R2, R3) = ENC_ROUND ctx (R0, R1, R2, R3) 2;
          (R2, R3, R0, R1) = ENC_ROUND ctx (R2, R3, R0, R1) 3;
          (R0, R1, R2, R3) = ENC_ROUND ctx (R0, R1, R2, R3) 4;
          (R2, R3, R0, R1) = ENC_ROUND ctx (R2, R3, R0, R1) 5;
          (R0, R1, R2, R3) = ENC_ROUND ctx (R0, R1, R2, R3) 6;
          (R2, R3, R0, R1) = ENC_ROUND ctx (R2, R3, R0, R1) 7;
          (R0, R1, R2, R3) = ENC_ROUND ctx (R0, R1, R2, R3) 8;
          (R2, R3, R0, R1) = ENC_ROUND ctx (R2, R3, R0, R1) 9;
          (R0, R1, R2, R3) = ENC_ROUND ctx (R0, R1, R2, R3) 10;
          (R2, R3, R0, R1) = ENC_ROUND ctx (R2, R3, R0, R1) 11;
          (R0, R1, R2, R3) = ENC_ROUND ctx (R0, R1, R2, R3) 12;
          (R2, R3, R0, R1) = ENC_ROUND ctx (R2, R3, R0, R1) 13;
          (R0, R1, R2, R3) = ENC_ROUND ctx (R0, R1, R2, R3) 14;
          (R2, R3, R0, R1) = ENC_ROUND ctx (R2, R3, R0, R1) 15
      in (R0, R1, R2, R3))"

definition twofish_encrypt :: "TWOFISH_CTX \<Rightarrow> byte list \<Rightarrow> byte list" where
  "twofish_encrypt ctx PT =
    (let R3 = K ctx ! 3 XOR BSWAP (load_u32 PT 3);
         R2 = K ctx ! 2 XOR BSWAP (load_u32 PT 2);
         R1 = K ctx ! 1 XOR BSWAP (load_u32 PT 1);
         R0 = K ctx ! 0 XOR BSWAP (load_u32 PT 0);
         (R0, R1, R2, R3) = twofish_encrypt_rounds ctx (R0, R1, R2, R3);
         PT = store_u32 PT 3 (BSWAP (R1 XOR K ctx ! 7));
         PT = store_u32 PT 2 (BSWAP (R0 XOR K ctx ! 6));
         PT = store_u32 PT 1 (BSWAP (R3 XOR K ctx ! 5));
         PT = store_u32 PT 0 (BSWAP (R2 XOR K ctx ! 4))
     in PT)"

text \<open>The sixteen \<^verbatim>\<open>DEC_ROUND\<close> lines of \<^verbatim>\<open>twofish_decrypt\<close>, from round 15 down to 0.\<close>

definition twofish_decrypt_rounds :: "TWOFISH_CTX \<Rightarrow> u32 \<times> u32 \<times> u32 \<times> u32 \<Rightarrow> u32 \<times> u32 \<times> u32 \<times> u32" where
  "twofish_decrypt_rounds ctx R =
    (case R of (R0, R1, R2, R3) \<Rightarrow>
      let (R0, R1, R2, R3) = DEC_ROUND ctx (R0, R1, R2, R3) 15;
          (R2, R3, R0, R1) = DEC_ROUND ctx (R2, R3, R0, R1) 14;
          (R0, R1, R2, R3) = DEC_ROUND ctx (R0, R1, R2, R3) 13;
          (R2, R3, R0, R1) = DEC_ROUND ctx (R2, R3, R0, R1) 12;
          (R0, R1, R2, R3) = DEC_ROUND ctx (R0, R1, R2, R3) 11;
          (R2, R3, R0, R1) = DEC_ROUND ctx (R2, R3, R0, R1) 10;
          (R0, R1, R2, R3) = DEC_ROUND ctx (R0, R1, R2, R3) 9;
          (R2, R3, R0, R1) = DEC_ROUND ctx (R2, R3, R0, R1) 8;
          (R0, R1, R2, R3) = DEC_ROUND ctx (R0, R1, R2, R3) 7;
          (R2, R3, R0, R1) = DEC_ROUND ctx (R2, R3, R0, R1) 6;
          (R0, R1, R2, R3) = DEC_ROUND ctx (R0, R1, R2, R3) 5;
          (R2, R3, R0, R1) = DEC_ROUND ctx (R2, R3, R0, R1) 4;
          (R0, R1, R2, R3) = DEC_ROUND ctx (R0, R1, R2, R3) 3;
          (R2, R3, R0, R1) = DEC_ROUND ctx (R2, R3, R0, R1) 2;
          (R0, R1, R2, R3) = DEC_ROUND ctx (R0, R1, R2, R3) 1;
          (R2, R3, R0, R1) = DEC_ROUND ctx (R2, R3, R0, R1) 0
      in (R0, R1, R2, R3))"

definition twofish_decrypt :: "TWOFISH_CTX \<Rightarrow> byte list \<Rightarrow> byte list" where
  "twofish_decrypt ctx PT =
    (let R3 = K ctx ! 7 XOR BSWAP (load_u32 PT 3);
         R2 = K ctx ! 6 XOR BSWAP (load_u32 PT 2);
         R1 = K ctx ! 5 XOR BSWAP (load_u32 PT 1);
         R0 = K ctx ! 4 XOR BSWAP (load_u32 PT 0);
         (R0, R1, R2, R3) = twofish_decrypt_rounds ctx (R0, R1, R2, R3);
         PT = store_u32 PT 3 (BSWAP (R1 XOR K ctx ! 3));
         PT = store_u32 PT 2 (BSWAP (R0 XOR K ctx ! 2));
         PT = store_u32 PT 1 (BSWAP (R3 XOR K ctx ! 1));
         PT = store_u32 PT 0 (BSWAP (R2 XOR K ctx ! 0))
     in PT)"

subsection \<open>The key schedule\<close>

text \<open>
  \<^verbatim>\<open>twofish_set_key(ctx, M, key_size)\<close> with \<^verbatim>\<open>int key_size\<close> in bits; the caller
  (twofish\_wrap.c) passes \<open>8 * len\<close> for a key of 16, 24 or 32 bytes. \<^verbatim>\<open>Me\<close>, \<^verbatim>\<open>Mo\<close>
  and \<^verbatim>\<open>S\<close> hold \<open>k\<close> words; \<^verbatim>\<open>S[k-i-1]\<close> is assigned for \<open>i = 0 .. k-1\<close>, so
  \<^verbatim>\<open>S\<close> is the reversed list of the Reed-Solomon words.
\<close>

definition key_k :: "int \<Rightarrow> int" where
  "key_k key_size = (key_size + 63) sdiv 64"

definition key_Me :: "byte list \<Rightarrow> int \<Rightarrow> u32 list" where
  "key_Me M k = map (\<lambda>i. BSWAP (load_u32 M (2 * i))) [0..<nat k]"

definition key_Mo :: "byte list \<Rightarrow> int \<Rightarrow> u32 list" where
  "key_Mo M k = map (\<lambda>i. BSWAP (load_u32 M (2 * i + 1))) [0..<nat k]"

definition key_vector :: "u32 \<Rightarrow> u32 \<Rightarrow> byte list" where
  "key_vector me mo = map (\<lambda>j. ucast (b_N me j)) [0..<4] @ map (\<lambda>j. ucast (b_N mo j)) [0..<4]"

definition key_S :: "byte list \<Rightarrow> int \<Rightarrow> u32 list" where
  "key_S M k =
     rev (map (\<lambda>i. RSMatrixMultiply (key_vector (key_Me M k ! i) (key_Mo M k ! i))) [0..<nat k])"

definition round_keys :: "u32 list \<Rightarrow> u32 list \<Rightarrow> int \<Rightarrow> u32 list \<Rightarrow> u32 list" where
  "round_keys Me Mo k K0 =
     fold (\<lambda>i Ks.
             let A = h (2 * of_nat i * RHO) Me k;
                 B = ROL (h (2 * of_nat i * RHO + RHO) Mo k) 8
             in Ks[2 * i := A + B, 2 * i + 1 := ROL (A + 2 * B) 9])
          [0..<20] K0"

definition twofish_set_key :: "TWOFISH_CTX \<Rightarrow> byte list \<Rightarrow> int \<Rightarrow> TWOFISH_CTX" where
  "twofish_set_key ctx M key_size =
    (let k = key_k key_size;
         Me = key_Me M k;
         Mo = key_Mo M k;
         S = key_S M k
     in ctx\<lparr>K := round_keys Me Mo k (K ctx), QF := fullKey S k\<rparr>)"

section \<open>Twofish: properties\<close>

subsection \<open>Rotations, bytes and words\<close>

lemma ROL_rotl: "ROL x n = word_rotl n x"
proof (rule bit_word_eqI)
  fix k assume "k < LENGTH(32)"
  then have k: "k < 32" by simp
  define m where "m = n mod 32"
  have m: "m < 32" by (simp add: m_def)
  have L: "bit (ROL x n) k \<longleftrightarrow> (m \<le> k \<and> bit x (k - m)) \<or> bit x (32 - m + k)"
    using k by (auto simp: ROL_def bit_simps simp flip: m_def)
  have R: "bit (word_rotl n x) k \<longleftrightarrow> bit x ((k + (32 - m)) mod 32)"
    using k by (simp add: bit_word_rotl_iff m_def)
  show "bit (ROL x n) k = bit (word_rotl n x) k"
  proof (cases "m \<le> k")
    case True
    then have "(k + (32 - m)) mod 32 = k - m" "32 \<le> 32 - m + k"
      using k m by (auto simp: mod_if)
    then show ?thesis
      using True L R bit_imp_le_length [of x "32 - m + k"] by auto
  next
    case False
    then have "(k + (32 - m)) mod 32 = 32 - m + k"
      using k m by (auto simp: mod_if)
    then show ?thesis using False L R by auto
  qed
qed

lemma ROR_rotr: "ROR x n = word_rotr n x"
proof (rule bit_word_eqI)
  fix k assume "k < LENGTH(32)"
  then have k: "k < 32" by simp
  define m where "m = n mod 32"
  have m: "m < 32" by (simp add: m_def)
  have L: "bit (ROR x n) k \<longleftrightarrow> bit x (m + k) \<or> (32 - m \<le> k \<and> bit x (k - (32 - m)))"
    using k by (auto simp: ROR_def bit_simps simp flip: m_def)
  have R: "bit (word_rotr n x) k \<longleftrightarrow> bit x ((k + m) mod 32)"
    using k by (simp add: bit_word_rotr_iff m_def mod_simps)
  show "bit (ROR x n) k = bit (word_rotr n x) k"
  proof (cases "32 - m \<le> k")
    case True
    then have "(k + m) mod 32 = k - (32 - m)" "32 \<le> m + k"
      using k m by (auto simp: mod_if)
    then show ?thesis
      using True L R bit_imp_le_length [of x "m + k"] by auto
  next
    case False
    then have "(k + m) mod 32 = m + k"
      using k m by (auto simp: mod_if)
    then show ?thesis using False L R by (auto simp: add.commute)
  qed
qed

lemma ROR_ROL [simp]: "ROR (ROL x n) n = x"
  by (simp add: ROL_rotl ROR_rotr)

lemma ROL_ROR [simp]: "ROL (ROR x n) n = x"
  by (simp add: ROL_rotl ROR_rotr)

lemma xor_cancel_right: "(a XOR b) XOR b = (a :: 'a :: len word)"
  by (simp add: xor.assoc)

lemma DEC_ENC_ROUND: "DEC_ROUND ctx (ENC_ROUND ctx R r) r = R"
  by (cases R) (simp add: DEC_ROUND_def ENC_ROUND_def Let_def add.commute xor_cancel_right)

lemma bytes_word:
  "ucast (ucast w :: byte) OR push_bit 8 (ucast (ucast (drop_bit 8 w) :: byte))
     OR push_bit 16 (ucast (ucast (drop_bit 16 w) :: byte))
     OR push_bit 24 (ucast (ucast (drop_bit 24 w) :: byte)) = (w :: u32)" (is "?L = w")
proof (rule bit_word_eqI)
  fix n assume "n < LENGTH(32)"
  then have "n < 32" by simp
  then consider "n < 8" | "8 \<le> n" "n < 16" | "16 \<le> n" "n < 24" | "24 \<le> n" "n < 32"
    by linarith
  then show "bit ?L n = bit w n"
    by cases (auto simp: bit_simps)
qed

lemma load_store_same:
  "4 * i + 3 < length PT \<Longrightarrow> load_u32 (store_u32 PT i w) i = w"
  by (simp add: load_u32_def store_u32_def bytes_word)

lemma load_store_other:
  "i \<noteq> j \<Longrightarrow> load_u32 (store_u32 PT i w) j = load_u32 PT j"
  by (simp add: load_u32_def store_u32_def)

lemma length_store [simp]: "length (store_u32 PT i w) = length PT"
  by (simp add: store_u32_def)

lemma extract_bytes:
  fixes a b c d :: byte
  defines "w \<equiv> (ucast a OR push_bit 8 (ucast b) OR push_bit 16 (ucast c) OR push_bit 24 (ucast d) :: u32)"
  shows "ucast w = a" "ucast (drop_bit 8 w) = b" "ucast (drop_bit 16 w) = c" "ucast (drop_bit 24 w) = d"
  unfolding w_def
  by (rule bit_word_eqI; auto simp: bit_simps dest: bit_imp_le_length)+

lemma load_bytes:
  "ucast (load_u32 P i) = P ! (4 * i)"
  "ucast (drop_bit 8 (load_u32 P i)) = P ! (4 * i + 1)"
  "ucast (drop_bit 16 (load_u32 P i)) = P ! (4 * i + 2)"
  "ucast (drop_bit 24 (load_u32 P i)) = P ! (4 * i + 3)"
  unfolding load_u32_def by (rule extract_bytes)+

lemma list16:
  assumes "length (P :: 'a list) = 16"
  obtains x0 x1 x2 x3 x4 x5 x6 x7 x8 x9 xa xb xc xd xe xf
  where "P = [x0, x1, x2, x3, x4, x5, x6, x7, x8, x9, xa, xb, xc, xd, xe, xf]"
  using assms by (auto simp: numeral_eq_Suc length_Suc_conv)

lemma store_all:
  assumes "length P = 16" "length C = 16"
  shows "store_u32 (store_u32 (store_u32 (store_u32 C 3 (load_u32 P 3)) 2 (load_u32 P 2)) 1
           (load_u32 P 1)) 0 (load_u32 P 0) = P"
proof -
  obtain x0 x1 x2 x3 x4 x5 x6 x7 x8 x9 xa xb xc xd xe xf
    where P: "P = [x0, x1, x2, x3, x4, x5, x6, x7, x8, x9, xa, xb, xc, xd, xe, xf]"
    using assms(1) by (rule list16)
  obtain y0 y1 y2 y3 y4 y5 y6 y7 y8 y9 ya yb yc yd ye yf
    where C: "C = [y0, y1, y2, y3, y4, y5, y6, y7, y8, y9, ya, yb, yc, yd, ye, yf]"
    using assms(2) by (rule list16)
  show ?thesis
    unfolding store_u32_def load_bytes by (simp add: P C)
qed

lemma rounds_inverse:
  assumes "twofish_encrypt_rounds ctx (a0, b0', c0, d0) = (a', b', c', d')"
  shows "twofish_decrypt_rounds ctx (c', d', a', b') = (c0, d0, a0, b0')"
proof -
  obtain a1 b1 c1 d1 where e0: "ENC_ROUND ctx (a0, b0', c0, d0) 0 = (a1, b1, c1, d1)"
    using prod_cases4 by blast
  have f0: "DEC_ROUND ctx (a1, b1, c1, d1) 0 = (a0, b0', c0, d0)"
    using DEC_ENC_ROUND [of ctx "(a0, b0', c0, d0)" 0] by (simp only: e0)
  obtain c2 d2 a2 b2 where e1: "ENC_ROUND ctx (c1, d1, a1, b1) 1 = (c2, d2, a2, b2)"
    using prod_cases4 by blast
  have f1: "DEC_ROUND ctx (c2, d2, a2, b2) 1 = (c1, d1, a1, b1)"
    using DEC_ENC_ROUND [of ctx "(c1, d1, a1, b1)" 1] by (simp only: e1)
  obtain a3 b3 c3 d3 where e2: "ENC_ROUND ctx (a2, b2, c2, d2) 2 = (a3, b3, c3, d3)"
    using prod_cases4 by blast
  have f2: "DEC_ROUND ctx (a3, b3, c3, d3) 2 = (a2, b2, c2, d2)"
    using DEC_ENC_ROUND [of ctx "(a2, b2, c2, d2)" 2] by (simp only: e2)
  obtain c4 d4 a4 b4 where e3: "ENC_ROUND ctx (c3, d3, a3, b3) 3 = (c4, d4, a4, b4)"
    using prod_cases4 by blast
  have f3: "DEC_ROUND ctx (c4, d4, a4, b4) 3 = (c3, d3, a3, b3)"
    using DEC_ENC_ROUND [of ctx "(c3, d3, a3, b3)" 3] by (simp only: e3)
  obtain a5 b5 c5 d5 where e4: "ENC_ROUND ctx (a4, b4, c4, d4) 4 = (a5, b5, c5, d5)"
    using prod_cases4 by blast
  have f4: "DEC_ROUND ctx (a5, b5, c5, d5) 4 = (a4, b4, c4, d4)"
    using DEC_ENC_ROUND [of ctx "(a4, b4, c4, d4)" 4] by (simp only: e4)
  obtain c6 d6 a6 b6 where e5: "ENC_ROUND ctx (c5, d5, a5, b5) 5 = (c6, d6, a6, b6)"
    using prod_cases4 by blast
  have f5: "DEC_ROUND ctx (c6, d6, a6, b6) 5 = (c5, d5, a5, b5)"
    using DEC_ENC_ROUND [of ctx "(c5, d5, a5, b5)" 5] by (simp only: e5)
  obtain a7 b7 c7 d7 where e6: "ENC_ROUND ctx (a6, b6, c6, d6) 6 = (a7, b7, c7, d7)"
    using prod_cases4 by blast
  have f6: "DEC_ROUND ctx (a7, b7, c7, d7) 6 = (a6, b6, c6, d6)"
    using DEC_ENC_ROUND [of ctx "(a6, b6, c6, d6)" 6] by (simp only: e6)
  obtain c8 d8 a8 b8 where e7: "ENC_ROUND ctx (c7, d7, a7, b7) 7 = (c8, d8, a8, b8)"
    using prod_cases4 by blast
  have f7: "DEC_ROUND ctx (c8, d8, a8, b8) 7 = (c7, d7, a7, b7)"
    using DEC_ENC_ROUND [of ctx "(c7, d7, a7, b7)" 7] by (simp only: e7)
  obtain a9 b9 c9 d9 where e8: "ENC_ROUND ctx (a8, b8, c8, d8) 8 = (a9, b9, c9, d9)"
    using prod_cases4 by blast
  have f8: "DEC_ROUND ctx (a9, b9, c9, d9) 8 = (a8, b8, c8, d8)"
    using DEC_ENC_ROUND [of ctx "(a8, b8, c8, d8)" 8] by (simp only: e8)
  obtain c10 d10 a10 b10 where e9: "ENC_ROUND ctx (c9, d9, a9, b9) 9 = (c10, d10, a10, b10)"
    using prod_cases4 by blast
  have f9: "DEC_ROUND ctx (c10, d10, a10, b10) 9 = (c9, d9, a9, b9)"
    using DEC_ENC_ROUND [of ctx "(c9, d9, a9, b9)" 9] by (simp only: e9)
  obtain a11 b11 c11 d11 where e10: "ENC_ROUND ctx (a10, b10, c10, d10) 10 = (a11, b11, c11, d11)"
    using prod_cases4 by blast
  have f10: "DEC_ROUND ctx (a11, b11, c11, d11) 10 = (a10, b10, c10, d10)"
    using DEC_ENC_ROUND [of ctx "(a10, b10, c10, d10)" 10] by (simp only: e10)
  obtain c12 d12 a12 b12 where e11: "ENC_ROUND ctx (c11, d11, a11, b11) 11 = (c12, d12, a12, b12)"
    using prod_cases4 by blast
  have f11: "DEC_ROUND ctx (c12, d12, a12, b12) 11 = (c11, d11, a11, b11)"
    using DEC_ENC_ROUND [of ctx "(c11, d11, a11, b11)" 11] by (simp only: e11)
  obtain a13 b13 c13 d13 where e12: "ENC_ROUND ctx (a12, b12, c12, d12) 12 = (a13, b13, c13, d13)"
    using prod_cases4 by blast
  have f12: "DEC_ROUND ctx (a13, b13, c13, d13) 12 = (a12, b12, c12, d12)"
    using DEC_ENC_ROUND [of ctx "(a12, b12, c12, d12)" 12] by (simp only: e12)
  obtain c14 d14 a14 b14 where e13: "ENC_ROUND ctx (c13, d13, a13, b13) 13 = (c14, d14, a14, b14)"
    using prod_cases4 by blast
  have f13: "DEC_ROUND ctx (c14, d14, a14, b14) 13 = (c13, d13, a13, b13)"
    using DEC_ENC_ROUND [of ctx "(c13, d13, a13, b13)" 13] by (simp only: e13)
  obtain a15 b15 c15 d15 where e14: "ENC_ROUND ctx (a14, b14, c14, d14) 14 = (a15, b15, c15, d15)"
    using prod_cases4 by blast
  have f14: "DEC_ROUND ctx (a15, b15, c15, d15) 14 = (a14, b14, c14, d14)"
    using DEC_ENC_ROUND [of ctx "(a14, b14, c14, d14)" 14] by (simp only: e14)
  obtain c16 d16 a16 b16 where e15: "ENC_ROUND ctx (c15, d15, a15, b15) 15 = (c16, d16, a16, b16)"
    using prod_cases4 by blast
  have f15: "DEC_ROUND ctx (c16, d16, a16, b16) 15 = (c15, d15, a15, b15)"
    using DEC_ENC_ROUND [of ctx "(c15, d15, a15, b15)" 15] by (simp only: e15)
  have "twofish_encrypt_rounds ctx (a0, b0', c0, d0) = (a16, b16, c16, d16)"
    by (simp only: twofish_encrypt_rounds_def Let_def prod.case e0 e1 e2 e3 e4 e5 e6 e7 e8 e9 e10 e11 e12 e13 e14 e15)
  with assms have "a' = a16" "b' = b16" "c' = c16" "d' = d16" by simp_all
  then show ?thesis
    by (simp only: twofish_decrypt_rounds_def Let_def prod.case f0 f1 f2 f3 f4 f5 f6 f7 f8 f9 f10 f11 f12 f13 f14 f15)
qed

lemma decrypt_encrypt_block:
  assumes "length PT = 16"
  shows "twofish_decrypt ctx (twofish_encrypt ctx PT) = PT"
proof -
  obtain a' b' c' d' where
    e: "twofish_encrypt_rounds ctx (K ctx ! 0 XOR load_u32 PT 0, K ctx ! 1 XOR load_u32 PT 1,
          K ctx ! 2 XOR load_u32 PT 2, K ctx ! 3 XOR load_u32 PT 3) = (a', b', c', d')"
    using prod_cases4 by blast
  note d = rounds_inverse [OF e]
  have B: "\<And>w. BSWAP w = w" by (simp add: BSWAP_def)
  define CT where "CT = twofish_encrypt ctx PT"
  have CT: "CT = store_u32 (store_u32 (store_u32 (store_u32 PT 3 (b' XOR K ctx ! 7)) 2
      (a' XOR K ctx ! 6)) 1 (d' XOR K ctx ! 5)) 0 (c' XOR K ctx ! 4)"
    unfolding CT_def twofish_encrypt_def Let_def e prod.case B ..
  have len: "length CT = 16" by (simp add: CT assms)
  have ld: "load_u32 CT 0 = c' XOR K ctx ! 4" "load_u32 CT 1 = d' XOR K ctx ! 5"
    "load_u32 CT 2 = a' XOR K ctx ! 6" "load_u32 CT 3 = b' XOR K ctx ! 7"
    unfolding CT by (simp_all add: load_store_same load_store_other assms)
  have x: "\<And>k v :: u32. k XOR (v XOR k) = v" "\<And>k v :: u32. (k XOR v) XOR k = v"
    by (simp_all add: xor.commute xor.left_commute)
  have "twofish_decrypt ctx CT = store_u32 (store_u32 (store_u32 (store_u32 CT 3 (load_u32 PT 3)) 2
      (load_u32 PT 2)) 1 (load_u32 PT 1)) 0 (load_u32 PT 0)"
    unfolding twofish_decrypt_def Let_def ld B x d prod.case ..
  also have "\<dots> = PT"
    by (rule store_all [OF assms len])
  finally show ?thesis
    by (simp only: CT_def)
qed

subsection \<open>The keyed tables refine h\<close>

definition pack :: "byte \<Rightarrow> byte \<Rightarrow> byte \<Rightarrow> byte \<Rightarrow> u32" where
  "pack a b c d = push_bit 24 (ucast a) OR push_bit 16 (ucast b) OR push_bit 8 (ucast c) OR ucast d"

lemma bit_pack:
  "bit (pack a b c d) n \<longleftrightarrow>
     (if n < 8 then bit d n else if n < 16 then bit c (n - 8) else if n < 24 then bit b (n - 16)
      else n < 32 \<and> bit a (n - 24))"
  by (auto simp: pack_def bit_simps dest: bit_imp_le_length)

lemma pack_xor:
  "pack a b c d XOR pack a' b' c' d' = pack (a XOR a') (b XOR b') (c XOR c') (d XOR d')"
  by (rule bit_word_eqI) (simp add: bit_pack bit_simps)

lemma BYTES_TO_U32_pack: "BYTES_TO_U32 a b c d = pack a b c d"
  by (rule bit_word_eqI) (auto simp: BYTES_TO_U32_def bit_pack bit_simps dest: bit_imp_le_length)

lemma of_nat_unat_byte: "of_nat (unat (v :: byte)) = v"
  by simp

lemma unat_byte_less: "unat (v :: byte) < 256"
  using unsigned_less [of v, where ?'a = nat] by simp

lemma fkh_fullKey:
  assumes "QF ctx = fullKey S k"
  shows "fkh ctx X = h X S k"
proof -
  have n: "\<And>f v. map f [0..<256] ! unat (v :: byte) = f (unat v)"
    using unat_byte_less by (simp del: upt_Suc)
  have q: "QF ctx ! 0 ! unat (b0 X) = fst (fullKey_entry S k (unat (b0 X)))"
    "QF ctx ! 1 ! unat (b1 X) = fst (snd (fullKey_entry S k (unat (b1 X))))"
    "QF ctx ! 2 ! unat (b2 X) = fst (snd (snd (fullKey_entry S k (unat (b2 X)))))"
    "QF ctx ! 3 ! unat (b3 X) = snd (snd (snd (fullKey_entry S k (unat (b3 X)))))"
    unfolding assms fullKey_def by (simp_all only: nth_Cons_0 nth_Cons_numeral nth_Cons_Suc n One_nat_def
        numeral_2_eq_2 numeral_3_eq_3) 
  consider "k = 4" | "k = 3" | "k = 2" | "k \<noteq> 4" "k \<noteq> 3" "k \<noteq> 2" by blast
  then show ?thesis
  proof cases
    case 1
    then show ?thesis
      unfolding fkh_def q
      by (simp add: h_def fullKey_entry_def Let_def BYTES_TO_U32_pack pack_xor flip: pack_def)
  next
    case 2
    then show ?thesis
      unfolding fkh_def q
      by (simp add: h_def fullKey_entry_def Let_def BYTES_TO_U32_pack pack_xor flip: pack_def)
  next
    case 3
    then show ?thesis
      unfolding fkh_def q
      by (simp add: h_def fullKey_entry_def Let_def BYTES_TO_U32_pack pack_xor flip: pack_def)
  next
    case 4
    then show ?thesis
      unfolding fkh_def q
      by (simp add: h_def fullKey_entry_def Let_def BYTES_TO_U32_pack pack_xor flip: pack_def)
  qed
qed

lemma QF_set_key: "QF (twofish_set_key ctx M key_size) = fullKey (key_S M (key_k key_size)) (key_k key_size)"
  by (simp add: twofish_set_key_def Let_def)

subsection \<open>Claims about Twofish\<close>

text \<open>
  C2. For every keyed Twofish context (key of 16, 24 or 32 bytes, keyed by
  \<^verbatim>\<open>twofish_set_key\<close> with \<open>key_size = 8 * len\<close> as the wrapper does) and every 16-byte
  block \<open>B\<close>, \<^verbatim>\<open>twofish_decrypt\<close> applied to the output of \<^verbatim>\<open>twofish_encrypt\<close> under
  the same context returns \<open>B\<close>.
\<close>

theorem twofish_decrypt_encrypt:
  assumes "length M = 16 \<or> length M = 24 \<or> length M = 32"
    and "length B = 16"
    and "ctx = twofish_set_key twofish_init_ctx M (8 * int (length M))"
  shows "twofish_decrypt ctx (twofish_encrypt ctx B) = B"
  using assms(2) by (rule decrypt_encrypt_block)

theorem twofish_decrypt_encrypt_witness:
  "length (replicate 16 (0 :: byte)) = 16 \<and> length (replicate 16 (7 :: byte)) = 16 \<and>
   twofish_decrypt (twofish_set_key twofish_init_ctx (replicate 16 0) (8 * int (length (replicate 16 (0 :: byte)))))
     (twofish_encrypt (twofish_set_key twofish_init_ctx (replicate 16 0) (8 * int (length (replicate 16 (0 :: byte)))))
       (replicate 16 7)) = replicate 16 7"
proof -
  have 1: "length (replicate 16 (0 :: byte)) = 16 \<or> length (replicate 16 (0 :: byte)) = 24
      \<or> length (replicate 16 (0 :: byte)) = 32"
    by (simp only: length_replicate simp_thms)
  have 2: "length (replicate 16 (7 :: byte)) = 16"
    by (simp only: length_replicate)
  show ?thesis
    using twofish_decrypt_encrypt [OF 1 2 refl] by (simp only: length_replicate simp_thms)
qed

text \<open>
  C8. After \<^verbatim>\<open>twofish_set_key\<close> has computed the S-box key words \<open>S\<close>, for every 32-bit
  word \<open>X\<close> the table lookup \<^verbatim>\<open>fkh(X)\<close>, that is
  \<open>QF[0][b0 X] ^ QF[1][b1 X] ^ QF[2][b2 X] ^ QF[3][b3 X]\<close>, equals the direct function
  \<^verbatim>\<open>h\<close> applied to \<open>X\<close> with the key words \<open>S\<close> and the same \<open>k\<close>.
\<close>

theorem fkh_refines_h:
  "fkh (twofish_set_key ctx M key_size) X = h X (key_S M (key_k key_size)) (key_k key_size)"
  by (rule fkh_fullKey) (rule QF_set_key)

end
